theory Spec2Isabelle
  imports Main
begin

section \<open>ACME objects as acme\_client.py reads them\<close>

text \<open>
  The module drives the \<^verbatim>\<open>acme\<close> library, which is not part of the repository.
  The library's objects are modelled by the fields the module reads; the library's
  calls are parameters of the model (record \<open>acme\<close> below).
\<close>

text \<open>The Python class of a challenge object. \<^verbatim>\<open>isinstance(x, cls)\<close> for the three
  classes of the \<^verbatim>\<open>challenge_class\<close> table is equality of the class tag: none of the
  three is a subclass of another.\<close>

datatype challenge_class = DNS01 | HTTP01 | TLSSNI01 | OtherChallenge

record challenge =
  chall_class :: challenge_class
  chall_token :: string

text \<open>\<^verbatim>\<open>messages.ChallengeBody\<close>: \<^verbatim>\<open>challb.chall\<close>, \<^verbatim>\<open>challb.uri\<close>.\<close>

record challenge_body =
  chall :: challenge
  challb_uri :: string

text \<open>\<^verbatim>\<open>authzr.body\<close>: the identifier, \<^verbatim>\<open>body.challenges\<close> and
  \<^verbatim>\<open>body.combinations\<close> (tuples of indices into \<^verbatim>\<open>challenges\<close>). The library
  leaves a member that the CA's answer does not carry at Python's \<^verbatim>\<open>None\<close>; that is
  \<open>None\<close> here.\<close>

record authorization =
  identifier_value :: string
  challenges :: "challenge_body list option"
  combinations :: "int list list option"

record authzr =
  authzr_uri :: string
  body :: authorization

type_synonym account_key = string
type_synonym chall_response = string
type_synonym validation = string
type_synonym cert = string

record regr =
  regr_uri :: "string option"
  new_authzr_uri :: string
  terms_of_service :: "string option"

text \<open>The caller's certificate signing request, by the names it asks for.\<close>

record csr =
  csr_domains :: "string list"

text \<open>\<^verbatim>\<open>messages.CertificateResource\<close>: \<^verbatim>\<open>crt.body\<close> and the link to the chain.\<close>

record certr =
  certr_body :: cert
  cert_chain_uri :: "string option"

text \<open>The entries of \<^verbatim>\<open>self._challenges\<close> (dict keys authzr, challb, response,
  validation) and of the returned \<^verbatim>\<open>tokens\<close> list (dict keys domain, validation).\<close>

record challenge_context =
  ctx_authzr :: authzr
  ctx_challb :: challenge_body
  ctx_response :: chall_response
  ctx_validation :: validation

record token =
  tok_domain :: string
  tok_validation :: validation

subsection \<open>Exceptions\<close>

text \<open>
  Every \<^verbatim>\<open>raise\<close> of the module is a constructor. A \<open>string\<close> argument is the
  formatted message; \<open>LookupError ctype authzr\<close> stands for
  \<^verbatim>\<open>LookupError('{} not in {}'.format(ctype, authzr))\<close>. \<open>IndexError\<close> is what a
  Python index out of range raises, \<open>TypeError\<close> what iterating over or indexing
  \<^verbatim>\<open>None\<close> raises; \<open>FileNotFoundError\<close> and \<open>PermissionError\<close> are what
  \<^verbatim>\<open>open\<close> raises.
\<close>

datatype exn =
    ValueError string
  | SystemError string
  | LookupError string authzr
  | IndexError
  | TypeError
  | Exception string
  | FileNotFoundError string
  | PermissionError string

subsection \<open>The library and the certificate authority behind it\<close>

text \<open>An HTTP response, by what \<^verbatim>\<open>_monkeypatch_register\<close> reads of it.\<close>

record http_response =
  status_code :: int
  headers :: "(string \<times> string) list"

text \<open>\<^verbatim>\<open>client.Client\<close>: the key it signs with and its directory (resource name to URL).\<close>

record client =
  client_key :: account_key
  directory :: "(string \<times> string) list"

text \<open>Every call the module makes through the library is recorded, in order.
  \<open>ClientNew\<close> is the constructor \<^verbatim>\<open>client.Client(directory_url, account_key)\<close>,
  which fetches the directory and keeps the key.\<close>

datatype reg_message = NewRegistration | UpdateRegistration

datatype net_call =
    ClientNew string account_key
  | Post account_key string reg_message
  | AgreeToTos regr
  | RequestDomainChallenges string string
  | Poll authzr
  | AnswerChallenge challenge_body chall_response
  | PollAndRequestIssuance csr "authzr list"
  | FetchChain certr

text \<open>
  The behaviour of the library client (and of the CA it talks to): each call answers
  from the calls made before it and its arguments, either with \<open>Inl msg\<close> (it raised;
  \<open>msg\<close> is \<^verbatim>\<open>str(e)\<close>) or with \<open>Inr\<close> of its result.
  \<open>response_and_validation\<close> is \<^verbatim>\<open>challb.response_and_validation(account_key)\<close>,
  a computation without a network call, taken to return for every challenge. \<open>client_new\<close> is the fetch of the directory by
  the constructor of \<^verbatim>\<open>client.Client\<close>. \<open>load_key\<close> is
  \<^verbatim>\<open>jose.JWKRSA(key=serialization.load_pem_private_key(contents, None, default_backend()))\<close>.
  \<open>send_request\<close> is the first three lines of \<^verbatim>\<open>_monkeypatch_post\<close> (sign the object
  with a nonce, send the POST, keep the new nonce); \<open>check_response\<close> is the library's
  \<^verbatim>\<open>_check_response\<close>, which raises (\<open>Some msg\<close>) or hands the response back;
  \<open>regr_from_response\<close> is the library's \<^verbatim>\<open>_regr_from_response(response, uri=...)\<close>.
\<close>

record acme =
  request_domain_challenges :: "net_call list \<Rightarrow> string \<Rightarrow> string \<Rightarrow> string + authzr"
  poll :: "net_call list \<Rightarrow> authzr \<Rightarrow> string + authzr \<times> string"
  response_and_validation :: "account_key \<Rightarrow> challenge_body \<Rightarrow> chall_response \<times> validation"
  answer_challenge :: "net_call list \<Rightarrow> challenge_body \<Rightarrow> chall_response \<Rightarrow> string + unit"
  poll_and_request_issuance :: "net_call list \<Rightarrow> csr \<Rightarrow> authzr list \<Rightarrow> string + certr \<times> authzr list"
  fetch_chain :: "net_call list \<Rightarrow> certr \<Rightarrow> string + cert list"
  load_key :: "string \<Rightarrow> string + account_key"
  client_new :: "net_call list \<Rightarrow> string \<Rightarrow> account_key \<Rightarrow> string + (string \<times> string) list"
  send_request :: "net_call list \<Rightarrow> account_key \<Rightarrow> string \<Rightarrow> reg_message \<Rightarrow> string + http_response"
  check_response :: "http_response \<Rightarrow> string option"
  regr_from_response :: "http_response \<Rightarrow> string option \<Rightarrow> string + regr"
  agree_to_tos :: "net_call list \<Rightarrow> regr \<Rightarrow> string + regr"

section \<open>CertRequest\<close>

text \<open>\<^verbatim>\<open>CertRequest.__init__\<close>: the fields of the object.\<close>

record cert_request =
  self_regr :: regr
  self_account_key :: account_key
  self_challenges :: "challenge_context list"

definition CertRequest :: "regr \<Rightarrow> account_key \<Rightarrow> cert_request" where
  "CertRequest r k = \<lparr>self_regr = r, self_account_key = k, self_challenges = []\<rparr>"

text \<open>The table of \<^verbatim>\<open>request_tokens\<close>; \<open>None\<close> is the \<^verbatim>\<open>KeyError\<close>.\<close>

definition challenge_class_of :: "string \<Rightarrow> challenge_class option" where
  "challenge_class_of ctype =
     (if ctype = ''dns01'' then Some DNS01
      else if ctype = ''http01'' then Some HTTP01
      else if ctype = ''tlssni01'' then Some TLSSNI01
      else None)"

text \<open>Python's \<^verbatim>\<open>xs[i]\<close>: a negative index counts from the end; \<open>None\<close> is the
  \<^verbatim>\<open>IndexError\<close>.\<close>

definition py_index :: "'a list \<Rightarrow> int \<Rightarrow> 'a option" where
  "py_index xs i =
     (if 0 \<le> i \<and> i < int (length xs) then Some (xs ! nat i)
      else if i < 0 \<and> - int (length xs) \<le> i then Some (xs ! nat (int (length xs) + i))
      else None)"

text \<open>
  Lines 177-182: the loop over \<^verbatim>\<open>authzr.body.combinations\<close>. The last argument is the
  variable \<^verbatim>\<open>challb\<close>; the loop has no \<^verbatim>\<open>break\<close>, so a later match overwrites it.
  \<^verbatim>\<open>len(c) == 1 and ...\<close> short-circuits: the challenge is looked up for
  combinations of one element only. The lookup stands in no \<^verbatim>\<open>try\<close>: what it raises
  leaves \<^verbatim>\<open>request_tokens\<close> as it is.
\<close>

fun select_challb ::
  "authorization \<Rightarrow> challenge_class \<Rightarrow> int list list \<Rightarrow> challenge_body option
     \<Rightarrow> exn + challenge_body option" where
  "select_challb a cls [] challb = Inr challb"
| "select_challb a cls (c # cs) challb =
     (if length c = 1 then
        (case challenges a of
           None \<Rightarrow> Inl TypeError
         | Some chs \<Rightarrow>
             (case py_index chs (hd c) of
                None \<Rightarrow> Inl IndexError
              | Some b \<Rightarrow>
                  if chall_class (chall b) = cls then select_challb a cls cs (Some b)
                  else select_challb a cls cs challb))
      else select_challb a cls cs challb)"

text \<open>Lines 167-175: request the authorization and poll it; any exception of the
  library is raised again as \<^verbatim>\<open>SystemError\<close>.\<close>

definition request_authzr ::
  "acme \<Rightarrow> cert_request \<Rightarrow> net_call list \<Rightarrow> string \<Rightarrow> (exn + authzr) \<times> net_call list" where
  "request_authzr env cr net domain =
     (let u = new_authzr_uri (self_regr cr);
          net1 = net @ [RequestDomainChallenges domain u]
      in case request_domain_challenges env net domain u of
           Inl e \<Rightarrow> (Inl (SystemError (''Challenge requesting failed: '' @ e)), net1)
         | Inr a \<Rightarrow>
             (case poll env net1 a of
                Inl e \<Rightarrow> (Inl (SystemError (''Challenge requesting failed: '' @ e)), net1 @ [Poll a])
              | Inr (a', r) \<Rightarrow> (Inr a', net1 @ [Poll a])))"

text \<open>Lines 166-199: the body of the loop over \<^verbatim>\<open>domains\<close>, for one domain. The
  \<^verbatim>\<open>for\<close> of line 178 over a missing \<^verbatim>\<open>combinations\<close> raises \<^verbatim>\<open>TypeError\<close>.\<close>

definition request_token ::
  "acme \<Rightarrow> challenge_class \<Rightarrow> string \<Rightarrow> cert_request \<Rightarrow> net_call list \<Rightarrow> string
     \<Rightarrow> (exn + token) \<times> cert_request \<times> net_call list" where
  "request_token env cls ctype cr net domain =
     (case request_authzr env cr net domain of
        (Inl e, net') \<Rightarrow> (Inl e, cr, net')
      | (Inr a, net') \<Rightarrow>
          (case combinations (body a) of
             None \<Rightarrow> (Inl TypeError, cr, net')
           | Some cs \<Rightarrow>
               (case select_challb (body a) cls cs None of
                  Inl e \<Rightarrow> (Inl e, cr, net')
                | Inr None \<Rightarrow> (Inl (LookupError ctype a), cr, net')
                | Inr (Some challb) \<Rightarrow>
                    (let rv = response_and_validation env (self_account_key cr) challb
                     in (Inr \<lparr>tok_domain = domain, tok_validation = snd rv\<rparr>,
                         cr\<lparr>self_challenges := self_challenges cr @
                              [\<lparr>ctx_authzr = a, ctx_challb = challb,
                                ctx_response = fst rv, ctx_validation = snd rv\<rparr>]\<rparr>,
                         net')))))"

text \<open>Lines 165-201: the loop over \<^verbatim>\<open>domains\<close>; the last argument is \<^verbatim>\<open>tokens\<close>.\<close>

fun request_tokens_loop ::
  "acme \<Rightarrow> challenge_class \<Rightarrow> string \<Rightarrow> cert_request \<Rightarrow> net_call list \<Rightarrow> string list
     \<Rightarrow> token list \<Rightarrow> (exn + token list) \<times> cert_request \<times> net_call list" where
  "request_tokens_loop env cls ctype cr net [] tokens = (Inr tokens, cr, net)"
| "request_tokens_loop env cls ctype cr net (d # ds) tokens =
     (case request_token env cls ctype cr net d of
        (Inl e, cr', net') \<Rightarrow> (Inl e, cr', net')
      | (Inr t, cr', net') \<Rightarrow> request_tokens_loop env cls ctype cr' net' ds (tokens @ [t]))"

text \<open>\<^verbatim>\<open>CertRequest.request_tokens\<close>.\<close>

definition request_tokens ::
  "acme \<Rightarrow> cert_request \<Rightarrow> net_call list \<Rightarrow> string list \<Rightarrow> string
     \<Rightarrow> (exn + token list) \<times> cert_request \<times> net_call list" where
  "request_tokens env cr net domains ctype =
     (case challenge_class_of ctype of
        None \<Rightarrow> (Inl (ValueError (''Type '' @ ctype @ '' is not defined'')), cr, net)
      | Some cls \<Rightarrow> request_tokens_loop env cls ctype cr net domains [])"

text \<open>Lines 211-220: the loop over \<^verbatim>\<open>self._challenges\<close>; the last argument is
  \<^verbatim>\<open>authzrs\<close>.\<close>

fun answer_loop ::
  "acme \<Rightarrow> net_call list \<Rightarrow> challenge_context list \<Rightarrow> authzr list
     \<Rightarrow> (exn + authzr list) \<times> net_call list" where
  "answer_loop env net [] authzrs = (Inr authzrs, net)"
| "answer_loop env net (c # cs) authzrs =
     (case answer_challenge env net (ctx_challb c) (ctx_response c) of
        Inl e \<Rightarrow> (Inl (SystemError (''Challenge answering failed: '' @ e)),
                  net @ [AnswerChallenge (ctx_challb c) (ctx_response c)])
      | Inr u \<Rightarrow> answer_loop env (net @ [AnswerChallenge (ctx_challb c) (ctx_response c)]) cs
                  (authzrs @ [ctx_authzr c]))"

text \<open>\<^verbatim>\<open>CertRequest.answer_challenges\<close>. It assigns no field of \<^verbatim>\<open>self\<close>; the object
  is returned as it was given. The wrapper \<^verbatim>\<open>jose.util.ComparableX509(csr)\<close> is the
  identity on the model's \<open>csr\<close>.\<close>

definition answer_challenges ::
  "acme \<Rightarrow> cert_request \<Rightarrow> net_call list \<Rightarrow> csr
     \<Rightarrow> (exn + cert list \<times> cert list) \<times> cert_request \<times> net_call list" where
  "answer_challenges env cr net req =
     (case answer_loop env net (self_challenges cr) [] of
        (Inl e, net1) \<Rightarrow> (Inl e, cr, net1)
      | (Inr authzrs, net1) \<Rightarrow>
          (case poll_and_request_issuance env net1 req authzrs of
             Inl e \<Rightarrow> (Inl (SystemError (''Requesting certificate failed: '' @ e)), cr,
                       net1 @ [PollAndRequestIssuance req authzrs])
           | Inr (crt, updated_authzrs) \<Rightarrow>
               (case fetch_chain env (net1 @ [PollAndRequestIssuance req authzrs]) crt of
                  Inl e \<Rightarrow>
                    (Inl (ValueError (''Extracting certificate and getting chain failed: '' @ e)),
                     cr, net1 @ [PollAndRequestIssuance req authzrs, FetchChain crt])
                | Inr chain \<Rightarrow>
                    (Inr ([certr_body crt], chain), cr,
                     net1 @ [PollAndRequestIssuance req authzrs, FetchChain crt]))))"


section \<open>Account\<close>

text \<open>What \<^verbatim>\<open>open(keyfile, 'rb')\<close> and \<^verbatim>\<open>kf.read()\<close> find at a path: nothing, a file the
  process may not open, a file whose read fails, or the bytes of the file.\<close>

datatype key_file = NoPermission | ReadFails string | Contents string

type_synonym filesystem = "string \<Rightarrow> key_file option"

text \<open>\<^verbatim>\<open>Account.__init__\<close>; \<^verbatim>\<open>self._regr\<close> exists only once
  \<^verbatim>\<open>create_account\<close> has assigned it.\<close>

record account =
  self_directory_url :: string
  self_acme :: "client option"
  self_account_regr :: "regr option"

definition Account :: "string \<Rightarrow> account" where
  "Account directory_url =
     \<lparr>self_directory_url = directory_url, self_acme = None, self_account_regr = None\<rparr>"

text \<open>The message \<^verbatim>\<open>"Key {} couldn't be loaded".format(e)\<close>.\<close>

definition key_not_loaded :: "string \<Rightarrow> exn" where
  "key_not_loaded e = Exception (''Key '' @ e @ '' couldn'' @ [CHR 0x27] @ ''t be loaded'')"

text \<open>Lines 108-119. \<^verbatim>\<open>open\<close> stands before the \<^verbatim>\<open>try\<close>: what it raises is not
  caught. The \<^verbatim>\<open>try\<close> holds the read and the parsing of the key.\<close>

definition read_account_key :: "acme \<Rightarrow> filesystem \<Rightarrow> string \<Rightarrow> exn + account_key" where
  "read_account_key env fs keyfile =
     (case fs keyfile of
        None \<Rightarrow> Inl (FileNotFoundError keyfile)
      | Some NoPermission \<Rightarrow> Inl (PermissionError keyfile)
      | Some (ReadFails e) \<Rightarrow> Inl (key_not_loaded e)
      | Some (Contents key_contents) \<Rightarrow>
          (case load_key env key_contents of
             Inl e \<Rightarrow> Inl (key_not_loaded e)
           | Inr account_key \<Rightarrow> Inr account_key))"

text \<open>\<^verbatim>\<open>_monkeypatch_post\<close>.\<close>

definition net_post ::
  "acme \<Rightarrow> client \<Rightarrow> net_call list \<Rightarrow> string \<Rightarrow> reg_message \<Rightarrow> bool
     \<Rightarrow> (string + http_response) \<times> net_call list" where
  "net_post env c net url obj check =
     (case send_request env net (client_key c) url obj of
        Inl e \<Rightarrow> (Inl e, net @ [Post (client_key c) url obj])
      | Inr response \<Rightarrow>
          (if check then
             (case check_response env response of Some e \<Rightarrow> Inl e | None \<Rightarrow> Inr response)
           else Inr response,
           net @ [Post (client_key c) url obj]))"

definition CONFLICT :: int where
  "CONFLICT = 409"

definition resource_type :: "reg_message \<Rightarrow> string" where
  "resource_type m = (case m of NewRegistration \<Rightarrow> ''new-reg'' | UpdateRegistration \<Rightarrow> ''reg'')"

text \<open>\<^verbatim>\<open>_monkeypatch_register\<close>. \<^verbatim>\<open>response.headers.get('Location')\<close> is true in the
  condition when the header is there and not the empty string. A missing directory
  entry is the library's \<^verbatim>\<open>KeyError('Directory field not found')\<close>, whose
  \<^verbatim>\<open>str\<close> keeps the quotes.\<close>

definition register ::
  "acme \<Rightarrow> client \<Rightarrow> net_call list \<Rightarrow> reg_message option \<Rightarrow> (string + regr) \<times> net_call list" where
  "register env c net new_reg0 =
     (let new_reg = (case new_reg0 of None \<Rightarrow> NewRegistration | Some m \<Rightarrow> m)
      in case map_of (directory c) (resource_type new_reg) of
           None \<Rightarrow> (Inl ([CHR 0x27] @ ''Directory field not found'' @ [CHR 0x27]), net)
         | Some url \<Rightarrow>
             (case net_post env c net url new_reg False of
                (Inl e, net1) \<Rightarrow> (Inl e, net1)
              | (Inr response, net1) \<Rightarrow>
                  (case map_of (headers response) ''Location'' of
                     Some loc \<Rightarrow>
                       if status_code response = CONFLICT \<and> loc \<noteq> [] then
                         (case net_post env c net1 loc UpdateRegistration True of
                            (Inl e, net2) \<Rightarrow> (Inl e, net2)
                          | (Inr response2, net2) \<Rightarrow>
                              (regr_from_response env response2 (Some loc), net2))
                       else (regr_from_response env response None, net1)
                   | None \<Rightarrow> (regr_from_response env response None, net1))))"

text \<open>\<^verbatim>\<open>Account.create_account\<close>. The two logging calls have no effect on the result
  and are left out. Everything after the key is loaded is inside one \<^verbatim>\<open>try\<close> whose
  handler raises \<^verbatim>\<open>SystemError\<close>.\<close>

definition create_account ::
  "acme \<Rightarrow> filesystem \<Rightarrow> account \<Rightarrow> net_call list \<Rightarrow> string
     \<Rightarrow> (exn + regr \<times> client \<times> account_key) \<times> account \<times> net_call list" where
  "create_account env fs self net keyfile =
     (case read_account_key env fs keyfile of
        Inl e \<Rightarrow> (Inl e, self, net)
      | Inr account_key \<Rightarrow>
          (let net1 = net @ [ClientNew (self_directory_url self) account_key]
           in case client_new env net (self_directory_url self) account_key of
                Inl e \<Rightarrow> (Inl (SystemError (''Account not created: '' @ e)), self, net1)
              | Inr d \<Rightarrow>
                  (let c = \<lparr>client_key = account_key, directory = d\<rparr>
                   in case register env c net1 None of
                     (Inl e, net2) \<Rightarrow>
                       (Inl (SystemError (''Account not created: '' @ e)),
                        self\<lparr>self_acme := Some c\<rparr>, net2)
                   | (Inr r, net2) \<Rightarrow>
                       (case agree_to_tos env net2 r of
                          Inl e \<Rightarrow>
                            (Inl (SystemError (''Account not created: '' @ e)),
                             self\<lparr>self_acme := Some c, self_account_regr := Some r\<rparr>,
                             net2 @ [AgreeToTos r])
                        | Inr r' \<Rightarrow>
                            (Inr (r, c, account_key),
                             self\<lparr>self_acme := Some c, self_account_regr := Some r\<rparr>,
                             net2 @ [AgreeToTos r])))))"

section \<open>The properties, in the words of the specification\<close>








definition answer_call :: "challenge_context \<Rightarrow> net_call" where
  "answer_call c = AnswerChallenge (ctx_challb c) (ctx_response c)"

section \<open>A small certificate authority, for concrete runs\<close>

definition ex_http :: challenge_body where
  "ex_http = \<lparr>chall = \<lparr>chall_class = HTTP01, chall_token = ''t0''\<rparr>, challb_uri = ''chall/0''\<rparr>"

definition ex_dns1 :: challenge_body where
  "ex_dns1 = \<lparr>chall = \<lparr>chall_class = DNS01, chall_token = ''t1''\<rparr>, challb_uri = ''chall/1''\<rparr>"

definition ex_dns2 :: challenge_body where
  "ex_dns2 = \<lparr>chall = \<lparr>chall_class = DNS01, chall_token = ''t2''\<rparr>, challb_uri = ''chall/2''\<rparr>"

text \<open>The authorization the example CA hands out: for one name it offers HTTP only; for
  one name its second combination points past the challenge list; for one name it sends
  no combinations; for every other name an HTTP challenge and two DNS challenges, each
  sufficient alone, with the same tokens whatever the name.\<close>

definition ex_authzr :: "string \<Rightarrow> authzr" where
  "ex_authzr domain =
     \<lparr>authzr_uri = ''authz/'' @ domain,
      body =
        (if domain = ''nodns.example.com'' then
           \<lparr>identifier_value = domain, challenges = Some [ex_http], combinations = Some [[0]]\<rparr>
         else if domain = ''dangling.example.com'' then
           \<lparr>identifier_value = domain, challenges = Some [ex_http],
            combinations = Some [[0], [3]]\<rparr>
         else if domain = ''bare.example.com'' then
           \<lparr>identifier_value = domain, challenges = Some [ex_http, ex_dns1], combinations = None\<rparr>
         else
           \<lparr>identifier_value = domain, challenges = Some [ex_http, ex_dns1, ex_dns2],
            combinations = Some [[1], [0], [2], [0, 1]]\<rparr>)\<rparr>"

fun is_new_reg_of :: "account_key \<Rightarrow> net_call \<Rightarrow> bool" where
  "is_new_reg_of k (Post k' u m) = (k' = k \<and> m = NewRegistration)"
| "is_new_reg_of k c = False"

text \<open>The example CA. Its certificates link to a chain or not, as \<open>up\<close> says. It knows an
  account key once a new-registration was posted with it, and answers a further
  new-registration with a conflict and the account's location.\<close>

definition ex_ca :: "string option \<Rightarrow> acme" where
  "ex_ca up =
     \<lparr>request_domain_challenges =
        (\<lambda>h domain u. if domain = ''down.example.com'' then Inl ''timeout''
                       else Inr (ex_authzr domain)),
      poll = (\<lambda>h a. Inr (a, ''200'')),
      response_and_validation =
        (\<lambda>k b. (chall_token (chall b) @ ''.'' @ k, ''digest-'' @ chall_token (chall b) @ ''.'' @ k)),
      answer_challenge = (\<lambda>h b r. Inr ()),
      poll_and_request_issuance =
        (\<lambda>h req authzrs.
           if set (csr_domains req) = set (map (\<lambda>a. identifier_value (body a)) authzrs)
           then Inr (\<lparr>certr_body = ''leaf'', cert_chain_uri = up\<rparr>, authzrs)
           else Inl ''names differ''),
      fetch_chain =
        (\<lambda>h crt. case cert_chain_uri crt of None \<Rightarrow> Inr [] | Some u \<Rightarrow> Inr [''intermediate'']),
      load_key = (\<lambda>s. if s = ''PEM RSA'' then Inr ''key'' else Inl ''Could not deserialize key data.''),
      client_new = (\<lambda>h url k. Inr [(''new-reg'', url @ ''/new-reg'')]),
      send_request =
        (\<lambda>h k url m.
           case m of
             NewRegistration \<Rightarrow>
               Inr \<lparr>status_code = (if list_ex (is_new_reg_of k) h then 409 else 201),
                    headers = [(''Location'', ''reg/'' @ k)]\<rparr>
           | UpdateRegistration \<Rightarrow> Inr \<lparr>status_code = 202, headers = []\<rparr>),
      check_response = (\<lambda>r. if status_code r < 400 then None else Some ''error response''),
      regr_from_response =
        (\<lambda>r u. Inr \<lparr>regr_uri = (case map_of (headers r) ''Location'' of Some l \<Rightarrow> Some l | None \<Rightarrow> u),
                     new_authzr_uri = ''new-authz'', terms_of_service = Some ''tos''\<rparr>),
      agree_to_tos = (\<lambda>h r. Inr r)\<rparr>"

definition ex_acme :: acme where
  "ex_acme = ex_ca (Some ''chain'')"

definition ex_regr :: regr where
  "ex_regr = \<lparr>regr_uri = Some ''reg/key'', new_authzr_uri = ''new-authz'',
              terms_of_service = Some ''tos''\<rparr>"

definition ex_cert_request :: cert_request where
  "ex_cert_request = CertRequest ex_regr ''key''"

text \<open>The context \<^verbatim>\<open>request_tokens\<close> stores for a name with the example CA.\<close>

definition ex_context :: "string \<Rightarrow> challenge_context" where
  "ex_context domain =
     \<lparr>ctx_authzr = ex_authzr domain, ctx_challb = ex_dns2,
      ctx_response = ''t2.key'', ctx_validation = ''digest-t2.key''\<rparr>"

definition ex_fs :: filesystem where
  "ex_fs path =
     (if path = ''account.key'' then Some (Contents ''PEM RSA'')
      else if path = ''garbage.key'' then Some (Contents ''garbage'')
      else if path = ''secret.key'' then Some NoPermission
      else None)"

section \<open>Lemmas\<close>





lemma request_token_Inl:
  "request_token env cls ctype cr net d = (Inl e, cr', net') \<Longrightarrow> cr' = cr"
  by (auto simp: request_token_def Let_def split: prod.splits sum.splits option.splits)

lemma request_token_Inr:
  assumes "request_token env cls ctype cr net d = (Inr t, cr', net')"
  shows "\<exists>c. cr' = cr\<lparr>self_challenges := self_challenges cr @ [c]\<rparr> \<and>
             tok_domain t = d \<and> tok_validation t = ctx_validation c \<and>
             ctx_validation c = snd (response_and_validation env (self_account_key cr) (ctx_challb c)) \<and>
             ctx_response c = fst (response_and_validation env (self_account_key cr) (ctx_challb c))"
  using assms
  by (auto simp: request_token_def Let_def split: prod.splits sum.splits option.splits)


lemma request_tokens_loop_inv:
  assumes "request_tokens_loop env cls ctype cr net ds toks = (res, cr', net')"
  shows "\<exists>new. self_challenges cr' = self_challenges cr @ new \<and> length new \<le> length ds \<and>
           self_regr cr' = self_regr cr \<and> self_account_key cr' = self_account_key cr \<and>
           (\<forall>c \<in> set new. ctx_validation c =
               snd (response_and_validation env (self_account_key cr) (ctx_challb c))) \<and>
           (\<forall>ts. res = Inr ts \<longrightarrow> length new = length ds \<and>
               (\<exists>nt. ts = toks @ nt \<and> map tok_domain nt = ds \<and>
                     map tok_validation nt = map ctx_validation new))"
  using assms
proof (induction ds arbitrary: cr net toks)
  case Nil
  then show ?case by auto
next
  case (Cons d ds)
  obtain r1 cr1 net1 where step: "request_token env cls ctype cr net d = (r1, cr1, net1)"
    by (cases "request_token env cls ctype cr net d") auto
  show ?case
  proof (cases r1)
    case (Inl e)
    with step Cons.prems have "res = Inl e" "cr' = cr1" by auto
    moreover from step Inl have "cr1 = cr" by (auto dest: request_token_Inl)
    ultimately show ?thesis by auto
  next
    case (Inr t)
    with step Cons.prems
    have rest: "request_tokens_loop env cls ctype cr1 net1 ds (toks @ [t]) = (res, cr', net')"
      by auto
    from step Inr obtain c where c:
      "cr1 = cr\<lparr>self_challenges := self_challenges cr @ [c]\<rparr>"
      "tok_domain t = d" "tok_validation t = ctx_validation c"
      "ctx_validation c = snd (response_and_validation env (self_account_key cr) (ctx_challb c))"
      using request_token_Inr by blast
    from Cons.IH[OF rest] obtain new where new:
      "self_challenges cr' = self_challenges cr1 @ new" "length new \<le> length ds"
      "self_regr cr' = self_regr cr1" "self_account_key cr' = self_account_key cr1"
      "\<forall>c \<in> set new. ctx_validation c =
               snd (response_and_validation env (self_account_key cr1) (ctx_challb c))"
      "\<forall>ts. res = Inr ts \<longrightarrow> length new = length ds \<and>
               (\<exists>nt. ts = (toks @ [t]) @ nt \<and> map tok_domain nt = ds \<and>
                     map tok_validation nt = map ctx_validation new)"
      by blast
    show ?thesis
    proof (intro exI[of _ "c # new"] conjI)
      show "self_challenges cr' = self_challenges cr @ c # new" using new(1) c(1) by simp
      show "length (c # new) \<le> length (d # ds)" using new(2) by simp
      show "self_regr cr' = self_regr cr" using new(3) c(1) by simp
      show "self_account_key cr' = self_account_key cr" using new(4) c(1) by simp
      show "\<forall>c \<in> set (c # new). ctx_validation c =
               snd (response_and_validation env (self_account_key cr) (ctx_challb c))"
        using new(5) c(1,4) by simp
      show "\<forall>ts. res = Inr ts \<longrightarrow> length (c # new) = length (d # ds) \<and>
               (\<exists>nt. ts = toks @ nt \<and> map tok_domain nt = d # ds \<and>
                     map tok_validation nt = map ctx_validation (c # new))"
      proof (intro allI impI)
        fix ts assume "res = Inr ts"
        with new(6) obtain nt where nt: "length new = length ds" "ts = (toks @ [t]) @ nt"
          "map tok_domain nt = ds" "map tok_validation nt = map ctx_validation new"
          by blast
        show "length (c # new) = length (d # ds) \<and>
               (\<exists>nt. ts = toks @ nt \<and> map tok_domain nt = d # ds \<and>
                     map tok_validation nt = map ctx_validation (c # new))"
          using nt c(2,3) by (intro conjI exI[of _ "t # nt"]) simp_all
      qed
    qed
  qed
qed

lemma answer_loop_calls:
  assumes "answer_loop env net cs acc = (res, net')"
  shows "\<exists>n\<le>length cs. net' = net @ map answer_call (take n cs) \<and>
           (\<forall>a. res = Inr a \<longrightarrow> n = length cs \<and> a = acc @ map ctx_authzr cs) \<and>
           (\<forall>e. res = Inl e \<longrightarrow> (\<exists>x. e = SystemError (''Challenge answering failed: '' @ x)))"
  using assms
proof (induction cs arbitrary: net acc)
  case Nil
  then show ?case by auto
next
  case (Cons c cs)
  show ?case
  proof (cases "answer_challenge env net (ctx_challb c) (ctx_response c)")
    case (Inl e)
    with Cons.prems show ?thesis
      by (intro exI[of _ 1]) (auto simp: answer_call_def)
  next
    case (Inr u)
    with Cons.prems have
      "answer_loop env (net @ [answer_call c]) cs (acc @ [ctx_authzr c]) = (res, net')"
      by (simp add: answer_call_def)
    from Cons.IH[OF this] obtain n where n: "n \<le> length cs"
      "net' = (net @ [answer_call c]) @ map answer_call (take n cs)"
      "\<forall>a. res = Inr a \<longrightarrow> n = length cs \<and> a = (acc @ [ctx_authzr c]) @ map ctx_authzr cs"
      "\<forall>e. res = Inl e \<longrightarrow> (\<exists>x. e = SystemError (''Challenge answering failed: '' @ x))"
      by blast
    then show ?thesis
      by (intro exI[of _ "Suc n"]) auto
  qed
qed

lemmas ex_defs = ex_acme_def ex_ca_def ex_cert_request_def CertRequest_def ex_regr_def
  ex_context_def ex_authzr_def ex_http_def ex_dns1_def ex_dns2_def


lemmas run_defs = request_tokens_def request_tokens_loop.simps request_token_def request_authzr_def
  challenge_class_of_def py_index_def Let_def






lemma register_conflict:
  assumes "map_of (directory c) ''new-reg'' = Some url"
      and "send_request env net (client_key c) url NewRegistration = Inr r"
      and "status_code r = CONFLICT"
      and "map_of (headers r) ''Location'' = Some loc"
      and "loc \<noteq> []"
  shows "register env c net None =
           (case net_post env c (net @ [Post (client_key c) url NewRegistration]) loc
                   UpdateRegistration True of
              (Inl e, net2) \<Rightarrow> (Inl e, net2)
            | (Inr r2, net2) \<Rightarrow> (regr_from_response env r2 (Some loc), net2))"
  using assms by (simp add: register_def resource_type_def net_post_def)

lemma register_Inr_url:
  assumes "register env c net None = (Inr g, net')"
  shows "\<exists>url r. map_of (directory c) ''new-reg'' = Some url \<and>
           send_request env net (client_key c) url NewRegistration = Inr r"
  using assms
  by (auto simp: register_def resource_type_def net_post_def split: option.splits sum.splits)

lemma create_account_Inr:
  assumes "create_account env fs self net keyfile = (Inr (g, c, k), self', net')"
  shows "read_account_key env fs keyfile = Inr k \<and> client_key c = k \<and>
         self_directory_url self' = self_directory_url self \<and>
         (\<exists>net2. register env c (net @ [ClientNew (self_directory_url self) k]) None = (Inr g, net2) \<and>
                 net' = net2 @ [AgreeToTos g])"
  using assms
  by (auto simp: create_account_def Let_def split: sum.splits prod.splits)

lemmas account_defs = create_account_def read_account_key_def register_def net_post_def
  resource_type_def CONFLICT_def Account_def ex_fs_def Let_def

section \<open>Claims\<close>




text \<open>
  C2, as the code has it. The claim asks for validation values that are non-empty and
  pairwise distinct. \<^verbatim>\<open>request_tokens\<close> compares no two values: each one is what
  \<^verbatim>\<open>response_and_validation\<close> computes from the account key and the challenge selected
  for the domain. With a CA that hands out the same token twice (for two names, or for
  one name asked twice, where it returns the authorization it already holds) two entries
  carry the same value:
\<close>

theorem request_tokens_same_validation_counterexample:
  "request_tokens ex_acme ex_cert_request [] [''a.example.com'', ''b.example.com''] ''dns01'' =
     (Inr [\<lparr>tok_domain = ''a.example.com'', tok_validation = ''digest-t2.key''\<rparr>,
           \<lparr>tok_domain = ''b.example.com'', tok_validation = ''digest-t2.key''\<rparr>],
      ex_cert_request\<lparr>self_challenges := [ex_context ''a.example.com'', ex_context ''b.example.com'']\<rparr>,
      [RequestDomainChallenges ''a.example.com'' ''new-authz'', Poll (ex_authzr ''a.example.com''),
       RequestDomainChallenges ''b.example.com'' ''new-authz'', Poll (ex_authzr ''b.example.com'')]) \<and>
   \<not> distinct (map tok_validation
       [\<lparr>tok_domain = ''a.example.com'', tok_validation = ''digest-t2.key''\<rparr>,
        \<lparr>tok_domain = ''b.example.com'', tok_validation = ''digest-t2.key''\<rparr>]) \<and>
   fst (request_tokens ex_acme ex_cert_request [] [''a.example.com'', ''a.example.com''] ''dns01'') =
     Inr [\<lparr>tok_domain = ''a.example.com'', tok_validation = ''digest-t2.key''\<rparr>,
          \<lparr>tok_domain = ''a.example.com'', tok_validation = ''digest-t2.key''\<rparr>]"
  by (simp add: run_defs ex_defs)

text \<open>
  C2 (amended). Whenever \<^verbatim>\<open>request_tokens\<close> returns normally it returns exactly one
  entry per domain, in input order; each entry pairs that domain with the validation
  value stored in the context appended for it, which is the value that
  \<^verbatim>\<open>response_and_validation\<close> computes from the account key and the selected
  challenge; the values are non-empty whenever the library computes no empty value.
\<close>

theorem request_tokens_one_entry_per_domain:
  assumes "request_tokens env cr net domains ctype = (Inr tokens, cr', net')"
  shows "map tok_domain tokens = domains \<and>
         length tokens = length domains \<and>
         take (length (self_challenges cr)) (self_challenges cr') = self_challenges cr \<and>
         map tok_validation tokens =
           map ctx_validation (drop (length (self_challenges cr)) (self_challenges cr')) \<and>
         (\<forall>c \<in> set (drop (length (self_challenges cr)) (self_challenges cr')).
            ctx_validation c =
              snd (response_and_validation env (self_account_key cr) (ctx_challb c))) \<and>
         ((\<forall>k b. snd (response_and_validation env k b) \<noteq> []) \<longrightarrow>
            (\<forall>t \<in> set tokens. tok_validation t \<noteq> []))"
proof -
  from assms obtain cls where cls: "challenge_class_of ctype = Some cls"
    and loop: "request_tokens_loop env cls ctype cr net domains [] = (Inr tokens, cr', net')"
    by (auto simp: request_tokens_def split: option.splits)
  from request_tokens_loop_inv[OF loop] obtain new where new:
    "self_challenges cr' = self_challenges cr @ new"
    "\<forall>c \<in> set new. ctx_validation c =
        snd (response_and_validation env (self_account_key cr) (ctx_challb c))"
    "length new = length domains" "map tok_domain tokens = domains"
    "map tok_validation tokens = map ctx_validation new"
    by auto
  have len: "length tokens = length domains"
    using new(4) by (metis length_map)
  have nonempty: "\<forall>t \<in> set tokens. tok_validation t \<noteq> []"
    if lib: "\<forall>k b. snd (response_and_validation env k b) \<noteq> []"
  proof
    fix t assume "t \<in> set tokens"
    then have "tok_validation t \<in> set (map ctx_validation new)"
      using new(5) by (metis image_eqI set_map)
    then obtain c where "c \<in> set new" "tok_validation t = ctx_validation c" by auto
    with new(2) lib show "tok_validation t \<noteq> []" by metis
  qed
  from new len nonempty show ?thesis by simp
qed

theorem request_tokens_one_entry_per_domain_witness:
  "request_tokens ex_acme ex_cert_request [] [''a.example.com'', ''c.example.com''] ''dns01'' =
     (Inr [\<lparr>tok_domain = ''a.example.com'', tok_validation = ''digest-t2.key''\<rparr>,
           \<lparr>tok_domain = ''c.example.com'', tok_validation = ''digest-t2.key''\<rparr>],
      ex_cert_request\<lparr>self_challenges := [ex_context ''a.example.com'', ex_context ''c.example.com'']\<rparr>,
      [RequestDomainChallenges ''a.example.com'' ''new-authz'', Poll (ex_authzr ''a.example.com''),
       RequestDomainChallenges ''c.example.com'' ''new-authz'', Poll (ex_authzr ''c.example.com'')]) \<and>
   map tok_domain
     [\<lparr>tok_domain = ''a.example.com'', tok_validation = ''digest-t2.key''\<rparr>,
      \<lparr>tok_domain = ''c.example.com'', tok_validation = ''digest-t2.key''\<rparr>] =
     [''a.example.com'', ''c.example.com''] \<and>
   (\<forall>k b. snd (response_and_validation ex_acme k b) \<noteq> []) \<and>
   list_all (\<lambda>t. tok_validation t \<noteq> [])
     [\<lparr>tok_domain = ''a.example.com'', tok_validation = ''digest-t2.key''\<rparr>,
      \<lparr>tok_domain = ''c.example.com'', tok_validation = ''digest-t2.key''\<rparr>]"
proof -
  have run: "request_tokens ex_acme ex_cert_request [] [''a.example.com'', ''c.example.com''] ''dns01'' =
     (Inr [\<lparr>tok_domain = ''a.example.com'', tok_validation = ''digest-t2.key''\<rparr>,
           \<lparr>tok_domain = ''c.example.com'', tok_validation = ''digest-t2.key''\<rparr>],
      ex_cert_request\<lparr>self_challenges := [ex_context ''a.example.com'', ex_context ''c.example.com'']\<rparr>,
      [RequestDomainChallenges ''a.example.com'' ''new-authz'', Poll (ex_authzr ''a.example.com''),
       RequestDomainChallenges ''c.example.com'' ''new-authz'', Poll (ex_authzr ''c.example.com'')])"
    by (simp add: run_defs ex_defs)
  have lib: "\<forall>k b. snd (response_and_validation ex_acme k b) \<noteq> []"
    by (simp add: ex_defs)
  from request_tokens_one_entry_per_domain[OF run] lib run show ?thesis
    by (simp add: list_all_iff)
qed

text \<open>
  C3. For every list of domains and every challenge-type string outside the table
  (dns01, http01, tlssni01), \<^verbatim>\<open>request_tokens\<close> raises the \<^verbatim>\<open>ValueError\<close> of line 164
  (InvalidChallengeType) before anything else happens: the trace of library calls is
  the one it started with, so no network call was made, and the object, with its list of
  challenge contexts, is unchanged.
\<close>

theorem request_tokens_invalid_type:
  assumes "ctype \<notin> {''dns01'', ''http01'', ''tlssni01''}"
  shows "request_tokens env cr net domains ctype =
           (Inl (ValueError (''Type '' @ ctype @ '' is not defined'')), cr, net)"
  using assms by (simp add: request_tokens_def challenge_class_of_def)

theorem request_tokens_invalid_type_witness:
  "''bogus-type'' \<notin> {''dns01'', ''http01'', ''tlssni01''} \<and>
   request_tokens ex_acme ex_cert_request [] [''a.example.com'', ''b.example.com''] ''bogus-type'' =
     (Inl (ValueError ''Type bogus-type is not defined''), ex_cert_request, [])"
proof -
  have h: "''bogus-type'' \<notin> {''dns01'', ''http01'', ''tlssni01''}" by simp
  from request_tokens_invalid_type[OF h, of ex_acme ex_cert_request "[]"
      "[''a.example.com'', ''b.example.com'']"] h
  show ?thesis by simp
qed

text \<open>
  C4. Registration is idempotent over two sequential \<^verbatim>\<open>create_account\<close> calls with the
  same key file. Both calls return normally, the first with the account at \<open>loc\<close>; from
  then on the CA answers a new-registration signed with this key by a conflict (409) that
  carries the Location \<open>loc\<close>; and the registration resource that the library builds with
  \<^verbatim>\<open>uri=loc\<close> from the answer to an update at \<open>loc\<close> has the uri \<open>loc\<close>. Then the second
  call returns the same account URI and the same key, and what it posts after the
  new-registration is an update to \<open>loc\<close>: \<^verbatim>\<open>register\<close> resolves to the account at the
  Location of the conflict.
\<close>

theorem create_account_twice_same_uri:
  assumes first: "create_account env fs self net keyfile = (Inr (regr1, c1, k1), self1, net1)"
      and second: "create_account env fs self1 net1 keyfile = (Inr (regr2, c2, k2), self2, net2)"
      and uri: "regr_uri regr1 = Some loc \<and> loc \<noteq> []"
      and conflict: "\<forall>h u r. send_request env (net1 @ h) k1 u NewRegistration = Inr r \<longrightarrow>
                       status_code r = CONFLICT \<and> map_of (headers r) ''Location'' = Some loc"
      and keeps: "\<forall>h r g. send_request env h k1 loc UpdateRegistration = Inr r \<longrightarrow>
                    regr_from_response env r (Some loc) = Inr g \<longrightarrow> regr_uri g = Some loc"
  shows "regr_uri regr2 = regr_uri regr1 \<and> k2 = k1 \<and>
         (\<exists>u. net2 = net1 @ [ClientNew (self_directory_url self) k1, Post k1 u NewRegistration,
                             Post k1 loc UpdateRegistration, AgreeToTos regr2])"
proof -
  from create_account_Inr[OF first] have k1: "read_account_key env fs keyfile = Inr k1"
    and url1: "self_directory_url self1 = self_directory_url self" by auto
  from create_account_Inr[OF second] k1 url1 obtain net2' where
    k2: "k2 = k1" and ck: "client_key c2 = k1" and
    reg: "register env c2 (net1 @ [ClientNew (self_directory_url self) k1]) None = (Inr regr2, net2')" and
    net2: "net2 = net2' @ [AgreeToTos regr2]"
    by auto
  let ?h = "net1 @ [ClientNew (self_directory_url self) k1]"
  from register_Inr_url[OF reg] ck obtain url r where
    url: "map_of (directory c2) ''new-reg'' = Some url" and
    r: "send_request env ?h k1 url NewRegistration = Inr r" by auto
  from conflict r have st: "status_code r = CONFLICT" and lc: "map_of (headers r) ''Location'' = Some loc"
    by blast+
  from uri have ne: "loc \<noteq> []" by simp
  from ck r have r': "send_request env ?h (client_key c2) url NewRegistration = Inr r" by simp
  note rc = register_conflict[OF url r' st lc ne]
  from rc reg ck obtain r2 where
    upd: "send_request env (?h @ [Post k1 url NewRegistration]) k1 loc UpdateRegistration = Inr r2" and
    g: "regr_from_response env r2 (Some loc) = Inr regr2" and
    n2: "net2' = ?h @ [Post k1 url NewRegistration, Post k1 loc UpdateRegistration]"
    by (auto simp: net_post_def split: sum.splits option.splits prod.splits if_splits)
  from keeps upd g have "regr_uri regr2 = Some loc" by blast
  with uri k2 net2 n2 show ?thesis by auto
qed

theorem create_account_twice_same_uri_witness:
  "create_account ex_acme ex_fs (Account ''dir'') [] ''account.key'' =
     (Inr (ex_regr, \<lparr>client_key = ''key'', directory = [(''new-reg'', ''dir/new-reg'')]\<rparr>, ''key''),
      \<lparr>self_directory_url = ''dir'',
       self_acme = Some \<lparr>client_key = ''key'', directory = [(''new-reg'', ''dir/new-reg'')]\<rparr>,
       self_account_regr = Some ex_regr\<rparr>,
      [ClientNew ''dir'' ''key'', Post ''key'' ''dir/new-reg'' NewRegistration, AgreeToTos ex_regr]) \<and>
   create_account ex_acme ex_fs
     \<lparr>self_directory_url = ''dir'',
      self_acme = Some \<lparr>client_key = ''key'', directory = [(''new-reg'', ''dir/new-reg'')]\<rparr>,
      self_account_regr = Some ex_regr\<rparr>
     [ClientNew ''dir'' ''key'', Post ''key'' ''dir/new-reg'' NewRegistration, AgreeToTos ex_regr]
     ''account.key'' =
     (Inr (ex_regr, \<lparr>client_key = ''key'', directory = [(''new-reg'', ''dir/new-reg'')]\<rparr>, ''key''),
      \<lparr>self_directory_url = ''dir'',
       self_acme = Some \<lparr>client_key = ''key'', directory = [(''new-reg'', ''dir/new-reg'')]\<rparr>,
       self_account_regr = Some ex_regr\<rparr>,
      [ClientNew ''dir'' ''key'', Post ''key'' ''dir/new-reg'' NewRegistration, AgreeToTos ex_regr,
       ClientNew ''dir'' ''key'', Post ''key'' ''dir/new-reg'' NewRegistration,
       Post ''key'' ''reg/key'' UpdateRegistration, AgreeToTos ex_regr]) \<and>
   regr_uri ex_regr = Some ''reg/key''"
proof -
  let ?c = "\<lparr>client_key = ''key'', directory = [(''new-reg'', ''dir/new-reg'')]\<rparr>"
  let ?self1 = "\<lparr>self_directory_url = ''dir'', self_acme = Some ?c, self_account_regr = Some ex_regr\<rparr>"
  let ?net1 = "[ClientNew ''dir'' ''key'', Post ''key'' ''dir/new-reg'' NewRegistration, AgreeToTos ex_regr]"
  let ?net2 = "?net1 @ [ClientNew ''dir'' ''key'', Post ''key'' ''dir/new-reg'' NewRegistration,
       Post ''key'' ''reg/key'' UpdateRegistration, AgreeToTos ex_regr]"
  have first: "create_account ex_acme ex_fs (Account ''dir'') [] ''account.key'' =
     (Inr (ex_regr, ?c, ''key''), ?self1, ?net1)"
    by (simp add: account_defs ex_defs)
  have second: "create_account ex_acme ex_fs ?self1 ?net1 ''account.key'' =
     (Inr (ex_regr, ?c, ''key''), ?self1, ?net2)"
    by (simp add: account_defs ex_defs)
  have uri: "regr_uri ex_regr = Some ''reg/key'' \<and> ''reg/key'' \<noteq> []"
    by (simp add: ex_regr_def)
  have conflict: "\<forall>h u r. send_request ex_acme (?net1 @ h) ''key'' u NewRegistration = Inr r \<longrightarrow>
      status_code r = CONFLICT \<and> map_of (headers r) ''Location'' = Some ''reg/key''"
    by (auto simp: ex_defs CONFLICT_def)
  have keeps: "\<forall>h r g. send_request ex_acme h ''key'' ''reg/key'' UpdateRegistration = Inr r \<longrightarrow>
      regr_from_response ex_acme r (Some ''reg/key'') = Inr g \<longrightarrow> regr_uri g = Some ''reg/key''"
    by (auto simp: ex_defs)
  from create_account_twice_same_uri[OF first second uri conflict keeps] uri
  have "regr_uri ex_regr = Some ''reg/key''" by simp
  with first second show ?thesis by simp
qed

text \<open>
  C5, as the code has it. The claim asks that a CSR whose names differ from the
  negotiated domains is refused before any answer is submitted. \<^verbatim>\<open>answer_challenges\<close>
  never reads the CSR's names: it submits the answers first and hands the CSR to
  \<^verbatim>\<open>poll_and_request_issuance\<close> afterwards. Here the example CA refuses the CSR, after
  the answer for the stored context was submitted:
\<close>

theorem answer_challenges_csr_mismatch_counterexample:
  "set (csr_domains \<lparr>csr_domains = [''b.example.com'']\<rparr>) \<noteq>
     set (map (\<lambda>c. identifier_value (body (ctx_authzr c))) [ex_context ''a.example.com'']) \<and>
   answer_challenges ex_acme
     (ex_cert_request\<lparr>self_challenges := [ex_context ''a.example.com'']\<rparr>) []
     \<lparr>csr_domains = [''b.example.com'']\<rparr> =
   (Inl (SystemError ''Requesting certificate failed: names differ''),
    ex_cert_request\<lparr>self_challenges := [ex_context ''a.example.com'']\<rparr>,
    [AnswerChallenge ex_dns2 ''t2.key'',
     PollAndRequestIssuance \<lparr>csr_domains = [''b.example.com'']\<rparr> [ex_authzr ''a.example.com'']])"
  by (simp add: answer_challenges_def ex_defs)

text \<open>
  C5 (amended). When the CA accepts every answer, \<^verbatim>\<open>answer_challenges\<close> submits an answer
  for every stored context, whatever the CSR, and only then hands the CSR with the
  authorizations to \<^verbatim>\<open>poll_and_request_issuance\<close>; when that call fails (as a CA does
  for a CSR whose names differ from the negotiated domains) the error raised is the
  \<^verbatim>\<open>SystemError\<close> of line 228, after all the answers.
\<close>

theorem answer_challenges_answers_before_csr:
  assumes "answer_loop env net (self_challenges cr) [] = (Inr authzrs, net1)"
  shows "net1 = net @ map answer_call (self_challenges cr) \<and>
         authzrs = map ctx_authzr (self_challenges cr) \<and>
         take (length net1 + 1) (snd (snd (answer_challenges env cr net req))) =
           net1 @ [PollAndRequestIssuance req authzrs] \<and>
         (\<forall>e. poll_and_request_issuance env net1 req authzrs = Inl e \<longrightarrow>
            fst (answer_challenges env cr net req) =
              Inl (SystemError (''Requesting certificate failed: '' @ e)))"
proof -
  from answer_loop_calls[OF assms]
  have "net1 = net @ map answer_call (self_challenges cr)"
    "authzrs = map ctx_authzr (self_challenges cr)" by auto
  moreover have "take (length net1 + 1) (snd (snd (answer_challenges env cr net req))) =
           net1 @ [PollAndRequestIssuance req authzrs]"
    using assms by (auto simp: answer_challenges_def split: sum.splits prod.splits)
  moreover have "\<forall>e. poll_and_request_issuance env net1 req authzrs = Inl e \<longrightarrow>
            fst (answer_challenges env cr net req) =
              Inl (SystemError (''Requesting certificate failed: '' @ e))"
    using assms by (auto simp: answer_challenges_def)
  ultimately show ?thesis by blast
qed

theorem answer_challenges_answers_before_csr_witness:
  "answer_loop ex_acme [] [ex_context ''a.example.com''] [] =
     (Inr [ex_authzr ''a.example.com''], [AnswerChallenge ex_dns2 ''t2.key'']) \<and>
   poll_and_request_issuance ex_acme [AnswerChallenge ex_dns2 ''t2.key'']
     \<lparr>csr_domains = [''b.example.com'']\<rparr> [ex_authzr ''a.example.com''] = Inl ''names differ'' \<and>
   take 2 (snd (snd (answer_challenges ex_acme
       (ex_cert_request\<lparr>self_challenges := [ex_context ''a.example.com'']\<rparr>) []
       \<lparr>csr_domains = [''b.example.com'']\<rparr>))) =
     [AnswerChallenge ex_dns2 ''t2.key'',
      PollAndRequestIssuance \<lparr>csr_domains = [''b.example.com'']\<rparr> [ex_authzr ''a.example.com'']] \<and>
   fst (answer_challenges ex_acme
       (ex_cert_request\<lparr>self_challenges := [ex_context ''a.example.com'']\<rparr>) []
       \<lparr>csr_domains = [''b.example.com'']\<rparr>) =
     Inl (SystemError ''Requesting certificate failed: names differ'')"
proof -
  let ?cr = "ex_cert_request\<lparr>self_challenges := [ex_context ''a.example.com'']\<rparr>"
  have loop: "answer_loop ex_acme [] (self_challenges ?cr) [] =
     (Inr [ex_authzr ''a.example.com''], [AnswerChallenge ex_dns2 ''t2.key''])"
    by (simp add: ex_defs)
  have rej: "poll_and_request_issuance ex_acme [AnswerChallenge ex_dns2 ''t2.key'']
     \<lparr>csr_domains = [''b.example.com'']\<rparr> [ex_authzr ''a.example.com''] = Inl ''names differ''"
    by (simp add: ex_defs)
  from answer_challenges_answers_before_csr[OF loop, of "\<lparr>csr_domains = [''b.example.com'']\<rparr>"] rej
  have "take 2 (snd (snd (answer_challenges ex_acme ?cr [] \<lparr>csr_domains = [''b.example.com'']\<rparr>))) =
     [AnswerChallenge ex_dns2 ''t2.key'',
      PollAndRequestIssuance \<lparr>csr_domains = [''b.example.com'']\<rparr> [ex_authzr ''a.example.com'']]"
    "fst (answer_challenges ex_acme ?cr [] \<lparr>csr_domains = [''b.example.com'']\<rparr>) =
     Inl (SystemError ''Requesting certificate failed: names differ'')"
    by (simp_all add: numeral_2_eq_2 answer_call_def ex_context_def)
  moreover from loop have "answer_loop ex_acme [] [ex_context ''a.example.com''] [] =
     (Inr [ex_authzr ''a.example.com''], [AnswerChallenge ex_dns2 ''t2.key''])"
    by (simp add: ex_cert_request_def CertRequest_def)
  ultimately show ?thesis using rej by blast
qed

text \<open>
  C6. The claim asks that a missing file, an unreadable file and an invalid encoding all
  surface as the one error of line 119 (KeyLoadError). \<^verbatim>\<open>open(keyfile, 'rb')\<close> stands
  outside the \<^verbatim>\<open>try\<close>: for a missing file and for a file the process may not open, what
  \<^verbatim>\<open>open\<close> raises leaves \<^verbatim>\<open>create_account\<close> as it is, while an invalid encoding is
  raised again as the error of line 119.
\<close>

theorem create_account_missing_key_file:
  "create_account ex_acme ex_fs (Account ''dir'') [] ''missing.key'' =
     (Inl (FileNotFoundError ''missing.key''), Account ''dir'', []) \<and>
   create_account ex_acme ex_fs (Account ''dir'') [] ''secret.key'' =
     (Inl (PermissionError ''secret.key''), Account ''dir'', []) \<and>
   create_account ex_acme ex_fs (Account ''dir'') [] ''garbage.key'' =
     (Inl (key_not_loaded ''Could not deserialize key data.''), Account ''dir'', [])"
  by (simp add: create_account_def read_account_key_def ex_fs_def ex_defs)

text \<open>
  C7, as the code has it. The claim asks for a non-empty chain on every normal return.
  \<^verbatim>\<open>answer_challenges\<close> returns \<^verbatim>\<open>fetch_chain\<close>'s list as it is; for a certificate
  without a link to an issuer certificate that list is empty:
\<close>

theorem answer_challenges_empty_chain_counterexample:
  "answer_challenges (ex_ca None)
     (ex_cert_request\<lparr>self_challenges := [ex_context ''a.example.com'']\<rparr>) []
     \<lparr>csr_domains = [''a.example.com'']\<rparr> =
   (Inr ([''leaf''], []),
    ex_cert_request\<lparr>self_challenges := [ex_context ''a.example.com'']\<rparr>,
    [answer_call (ex_context ''a.example.com''),
     PollAndRequestIssuance \<lparr>csr_domains = [''a.example.com'']\<rparr> [ex_authzr ''a.example.com''],
     FetchChain \<lparr>certr_body = ''leaf'', cert_chain_uri = None\<rparr>])"
  by (simp add: answer_challenges_def answer_call_def ex_defs)

text \<open>
  C7 (amended). Whenever \<^verbatim>\<open>answer_challenges\<close> returns normally, an answer was
  submitted for every stored context, \<^verbatim>\<open>poll_and_request_issuance\<close> returned a
  certificate resource for the CSR and the stored authorizations, the leaf-certificate
  sequence is the one-element list of the body of that resource (so it is not empty), and
  the chain is the list that \<^verbatim>\<open>fetch_chain\<close> returned for that same resource, which may
  be empty; these are all the calls made. In every other case it raises
  \<^verbatim>\<open>SystemError\<close> or \<^verbatim>\<open>ValueError\<close> and returns no certificate material.
\<close>

theorem answer_challenges_leaf_and_fetched_chain:
  assumes "answer_challenges env cr net req = (res, cr', net')"
  shows "case res of
           Inr (cert, chain) \<Rightarrow>
             cert \<noteq> [] \<and>
             (\<exists>crt updated.
                poll_and_request_issuance env (net @ map answer_call (self_challenges cr)) req
                  (map ctx_authzr (self_challenges cr)) = Inr (crt, updated) \<and>
                cert = [certr_body crt] \<and>
                fetch_chain env
                  (net @ map answer_call (self_challenges cr) @
                   [PollAndRequestIssuance req (map ctx_authzr (self_challenges cr))]) crt =
                  Inr chain \<and>
                net' = net @ map answer_call (self_challenges cr) @
                   [PollAndRequestIssuance req (map ctx_authzr (self_challenges cr)),
                    FetchChain crt])
         | Inl e \<Rightarrow> (\<exists>m. e = SystemError m \<or> e = ValueError m)"
proof -
  obtain r1 net1 where al: "answer_loop env net (self_challenges cr) [] = (r1, net1)"
    by (cases "answer_loop env net (self_challenges cr) []") auto
  from answer_loop_calls[OF al]
  have err: "\<forall>e. r1 = Inl e \<longrightarrow> (\<exists>x. e = SystemError (''Challenge answering failed: '' @ x))"
    and ok: "\<forall>a. r1 = Inr a \<longrightarrow>
               net1 = net @ map answer_call (self_challenges cr) \<and>
               a = map ctx_authzr (self_challenges cr)"
    by auto
  show ?thesis
  proof (cases r1)
    case (Inl e)
    with err al assms show ?thesis by (auto simp: answer_challenges_def)
  next
    case (Inr authzrs)
    with ok have "net1 = net @ map answer_call (self_challenges cr)"
      "authzrs = map ctx_authzr (self_challenges cr)" by auto
    with Inr al assms show ?thesis
      by (auto simp: answer_challenges_def split: sum.splits prod.splits)
  qed
qed

theorem answer_challenges_leaf_and_fetched_chain_witness:
  "answer_challenges ex_acme
     (ex_cert_request\<lparr>self_challenges := [ex_context ''a.example.com'']\<rparr>) []
     \<lparr>csr_domains = [''a.example.com'']\<rparr> =
   (Inr ([''leaf''], [''intermediate'']),
    ex_cert_request\<lparr>self_challenges := [ex_context ''a.example.com'']\<rparr>,
    [answer_call (ex_context ''a.example.com''),
     PollAndRequestIssuance \<lparr>csr_domains = [''a.example.com'']\<rparr> [ex_authzr ''a.example.com''],
     FetchChain \<lparr>certr_body = ''leaf'', cert_chain_uri = Some ''chain''\<rparr>]) \<and>
   [''leaf''] \<noteq> []"
proof -
  have run: "answer_challenges ex_acme
     (ex_cert_request\<lparr>self_challenges := [ex_context ''a.example.com'']\<rparr>) []
     \<lparr>csr_domains = [''a.example.com'']\<rparr> =
   (Inr ([''leaf''], [''intermediate'']),
    ex_cert_request\<lparr>self_challenges := [ex_context ''a.example.com'']\<rparr>,
    [answer_call (ex_context ''a.example.com''),
     PollAndRequestIssuance \<lparr>csr_domains = [''a.example.com'']\<rparr> [ex_authzr ''a.example.com''],
     FetchChain \<lparr>certr_body = ''leaf'', cert_chain_uri = Some ''chain''\<rparr>])"
    by (simp add: answer_challenges_def answer_call_def ex_defs)
  from answer_challenges_leaf_and_fetched_chain[OF run] run show ?thesis by simp
qed





text \<open>
  C10. Whenever \<^verbatim>\<open>answer_challenges\<close> returns normally, the leaf-certificate sequence
  has exactly one element, the body of the certificate resource that
  \<^verbatim>\<open>poll_and_request_issuance\<close> returned, however many contexts were stored.
\<close>

theorem answer_challenges_one_leaf:
  assumes "answer_challenges env cr net req = (Inr (cert, chain), cr', net')"
  shows "length cert = 1 \<and>
         (\<exists>crt updated.
            poll_and_request_issuance env (net @ map answer_call (self_challenges cr)) req
              (map ctx_authzr (self_challenges cr)) = Inr (crt, updated) \<and>
            cert = [certr_body crt])"
proof -
  obtain r1 net1 where al: "answer_loop env net (self_challenges cr) [] = (r1, net1)"
    by (cases "answer_loop env net (self_challenges cr) []") auto
  from answer_loop_calls[OF al] obtain n where n: "n \<le> length (self_challenges cr)"
    "net1 = net @ map answer_call (take n (self_challenges cr))"
    "\<forall>a. r1 = Inr a \<longrightarrow> n = length (self_challenges cr) \<and> a = [] @ map ctx_authzr (self_challenges cr)"
    by blast
  from assms al obtain a where a: "r1 = Inr a"
    by (cases r1) (auto simp: answer_challenges_def)
  with n have "net1 = net @ map answer_call (self_challenges cr)"
    "a = map ctx_authzr (self_challenges cr)" by auto
  with assms al a show ?thesis
    by (auto simp: answer_challenges_def split: sum.splits prod.splits)
qed

theorem answer_challenges_one_leaf_witness:
  "answer_challenges ex_acme
     (ex_cert_request\<lparr>self_challenges := [ex_context ''a.example.com'', ex_context ''b.example.com'']\<rparr>)
     [] \<lparr>csr_domains = [''a.example.com'', ''b.example.com'']\<rparr> =
   (Inr ([''leaf''], [''intermediate'']),
    ex_cert_request\<lparr>self_challenges := [ex_context ''a.example.com'', ex_context ''b.example.com'']\<rparr>,
    [answer_call (ex_context ''a.example.com''), answer_call (ex_context ''b.example.com''),
     PollAndRequestIssuance \<lparr>csr_domains = [''a.example.com'', ''b.example.com'']\<rparr>
       [ex_authzr ''a.example.com'', ex_authzr ''b.example.com''],
     FetchChain \<lparr>certr_body = ''leaf'', cert_chain_uri = Some ''chain''\<rparr>]) \<and>
   length [''leaf''] = 1"
proof -
  have run: "answer_challenges ex_acme
     (ex_cert_request\<lparr>self_challenges := [ex_context ''a.example.com'', ex_context ''b.example.com'']\<rparr>)
     [] \<lparr>csr_domains = [''a.example.com'', ''b.example.com'']\<rparr> =
   (Inr ([''leaf''], [''intermediate'']),
    ex_cert_request\<lparr>self_challenges := [ex_context ''a.example.com'', ex_context ''b.example.com'']\<rparr>,
    [answer_call (ex_context ''a.example.com''), answer_call (ex_context ''b.example.com''),
     PollAndRequestIssuance \<lparr>csr_domains = [''a.example.com'', ''b.example.com'']\<rparr>
       [ex_authzr ''a.example.com'', ex_authzr ''b.example.com''],
     FetchChain \<lparr>certr_body = ''leaf'', cert_chain_uri = Some ''chain''\<rparr>])"
    by (simp add: answer_challenges_def answer_call_def ex_defs)
  from answer_challenges_one_leaf[OF run] run show ?thesis by simp
qed

end
